theory Spec2Isabelle
  imports Complex_Main "HOL-Library.Char_ord" "HOL-Library.List_Lexorder" "HOL-Library.Multiset"
    "HOL-Library.Sublist"
begin

section \<open>Records and their values\<close>

text \<open>
  A generated record is a Python \<^verbatim>\<open>Dict[str, Any]\<close>. Its values are the JSON-like
  values a structured model output can hold. A dictionary is an association list in
  insertion order; a Python dictionary never holds a key twice, so the lists that
  stand for dictionaries have distinct keys. A \<^typ>\<open>string\<close> is read as a Python
  \<^verbatim>\<open>str\<close> whose characters are code points below 256.
\<close>

datatype pyval =
    PNone
  | PBool bool
  | PInt int
  | PStr string
  | PList "pyval list"
  | PDict "(string \<times> pyval) list"

type_synonym pyrecord = "(string \<times> pyval) list"

section \<open>Evaluator agent: exact duplicates\<close>

text \<open>
  \<^verbatim>\<open>record_str = str(sorted(record.items()))\<close>: the items are sorted as tuples,
  which for distinct keys is the order of the keys (code point order, as
  \<^theory_text>\<open>List_Lexorder\<close> over \<^theory_text>\<open>Char_ord\<close>), and printed. The printed
  text of a list of such tuples is a Python literal that reads back to the same
  list, so two records have the same text exactly when their sorted item lists are
  the same; the sorted item list stands for the text.
\<close>

definition record_str :: "pyrecord \<Rightarrow> pyrecord" where
  "record_str record = sort_key fst record"

text \<open>
  The loop of \<^verbatim>\<open>remove_exact_duplicates\<close>, with its two local variables
  \<^verbatim>\<open>seen\<close> and \<^verbatim>\<open>unique_data\<close> passed along.
\<close>

fun dedup_loop :: "pyrecord list \<Rightarrow> pyrecord set \<Rightarrow> pyrecord list \<Rightarrow> pyrecord list" where
  "dedup_loop [] seen unique_data = unique_data"
| "dedup_loop (record # rest) seen unique_data =
     (if record_str record \<notin> seen
      then dedup_loop rest (insert (record_str record) seen) (unique_data @ [record])
      else dedup_loop rest seen unique_data)"

definition remove_exact_duplicates :: "pyrecord list \<Rightarrow> pyrecord list" where
  "remove_exact_duplicates data = dedup_loop data {} []"

section \<open>Evaluator agent: basic quality check\<close>

text \<open>
  \<^verbatim>\<open>str.isspace\<close> and \<^verbatim>\<open>str.lower\<close> on the code points below 256:
  the white space characters are 9 to 13, 28 to 32, 133 and 160; the capital letters
  are 65 to 90 and 192 to 222 without 215, each 32 below its small letter.
\<close>

definition py_isspace :: "char \<Rightarrow> bool" where
  "py_isspace c =
     (let n = (of_char c :: nat)
      in (9 \<le> n \<and> n \<le> 13) \<or> (28 \<le> n \<and> n \<le> 32) \<or> n = 133 \<or> n = 160)"

definition py_lower_char :: "char \<Rightarrow> char" where
  "py_lower_char c =
     (let n = (of_char c :: nat)
      in if (65 \<le> n \<and> n \<le> 90) \<or> (192 \<le> n \<and> n \<le> 222 \<and> n \<noteq> 215)
         then char_of (n + 32) else c)"

definition py_lower :: "string \<Rightarrow> string" where
  "py_lower s = map py_lower_char s"

definition py_strip :: "string \<Rightarrow> string" where
  "py_strip s = rev (dropWhile py_isspace (rev (dropWhile py_isspace s)))"

definition placeholders :: "string list" where
  "placeholders = [''placeholder'', ''example'', ''sample'', ''test'', ''...'']"

text \<open>
  The inner loop over \<^verbatim>\<open>record.items()\<close>: the result is the value of
  \<^verbatim>\<open>is_valid\<close> when the loop ends, \<^verbatim>\<open>False\<close> at the first
  \<^verbatim>\<open>break\<close>.
\<close>

fun items_loop :: "(string \<times> pyval) list \<Rightarrow> bool" where
  "items_loop [] = True"
| "items_loop ((key, PStr v) # rest) =
     (if int (length (py_strip v)) < 3 then False
      else if py_lower v \<in> set placeholders then False
      else items_loop rest)"
| "items_loop ((key, PDict d) # rest) =
     (if d = [] then False else items_loop rest)"
| "items_loop ((key, v) # rest) = items_loop rest"

fun quality_loop :: "pyrecord list \<Rightarrow> pyrecord list \<Rightarrow> pyrecord list" where
  "quality_loop [] valid_records = valid_records"
| "quality_loop (record # rest) valid_records =
     (if items_loop record then quality_loop rest (valid_records @ [record])
      else quality_loop rest valid_records)"

definition basic_quality_check :: "pyrecord list \<Rightarrow> string \<Rightarrow> pyrecord list" where
  "basic_quality_check data data_format = quality_loop data []"

section \<open>Workflow state\<close>

text \<open>
  \<^verbatim>\<open>GenerationState\<close> of \<^verbatim>\<open>models/schemas.py\<close>. The field
  \<^verbatim>\<open>context\<close> is called \<open>user_context\<close> here. The status is a Python string.
\<close>

record GenerationState =
  domain :: string
  data_format :: string
  num_records :: int
  user_context :: "string option"
  domain_research :: "string option"
  generated_data :: "pyrecord list"
  current_batch :: int
  total_batches :: int
  file_path :: "string option"
  status :: string
  error_message :: "string option"

text \<open>A raised exception, with the text that \<^verbatim>\<open>str(e)\<close> gives.\<close>

datatype exn = Exception string

fun str_of :: "exn \<Rightarrow> string" where
  "str_of (Exception msg) = msg"

record ResearchResult =
  domain_info :: string
  key_concepts :: "string list"
  terminology :: "string list"
  context_enriched :: string

text \<open>
  The dictionaries the model service returns are read with \<^verbatim>\<open>.get(key, default)\<close>,
  so each key may be absent.
\<close>

record research_dict =
  get_domain_info :: "string option"
  get_key_concepts :: "string list option"
  get_terminology :: "string list option"
  get_context_enriched :: "string option"

record evaluation_dict =
  get_valid_records :: "pyrecord list option"
  get_duplicate_count :: "int option"
  get_quality_issues :: "string list option"
  get_passed_validation :: "bool option"

record EvaluationResult =
  valid_records :: "pyrecord list"
  duplicate_count :: int
  quality_issues :: "string list"
  passed_validation :: bool

text \<open>
  What lies outside the agents: the configuration, the table of domain contexts, the
  web enrichment, the model service, the JSON printer, the file writer and the graph
  library's bound on the number of node executions. A call that may raise returns
  \<open>Inl\<close> of the exception. The generation service is asked many times in a run and
  may answer differently each time, so it is also given the number of requests made
  before this one.
\<close>

record world =
  BATCH_SIZE :: int
  recursion_limit :: nat
  recursion_error :: string
  base_contexts :: "string \<Rightarrow> string option"
  enrich_context_with_web_data :: "string \<Rightarrow> string \<Rightarrow> string option \<Rightarrow> exn + string"
  llm_research_domain :: "string \<Rightarrow> string \<Rightarrow> exn + research_dict"
  model_dump_json :: "ResearchResult \<Rightarrow> string"
  generate_synthetic_data ::
    "nat \<Rightarrow> string \<Rightarrow> string \<Rightarrow> int \<Rightarrow> string option \<Rightarrow> string option \<Rightarrow> exn + pyrecord list"
  evaluate_data_quality :: "pyrecord list \<Rightarrow> string \<Rightarrow> exn + evaluation_dict"
  write_csv :: "pyrecord list \<Rightarrow> string \<Rightarrow> string \<Rightarrow> exn + string"

definition dict_get :: "'a option \<Rightarrow> 'a \<Rightarrow> 'a" where
  "dict_get entry dflt = (case entry of None \<Rightarrow> dflt | Some v \<Rightarrow> v)"

section \<open>Research agent\<close>

definition get_domain_context :: "world \<Rightarrow> string \<Rightarrow> string option \<Rightarrow> string" where
  "get_domain_context w dmn ctx =
     (let base_context = dict_get (base_contexts w dmn) []
      in case ctx of
           None \<Rightarrow> base_context
         | Some u \<Rightarrow> if u \<noteq> [] then base_context @ '' Specific focus: '' @ u else base_context)"

definition research_failed :: "GenerationState \<Rightarrow> exn \<Rightarrow> GenerationState" where
  "research_failed state e =
     state\<lparr>status := ''research_failed'',
           error_message := Some (''Research failed: '' @ str_of e)\<rparr>"

definition research_domain :: "world \<Rightarrow> GenerationState \<Rightarrow> GenerationState" where
  "research_domain w state =
     (let base_context = get_domain_context w (domain state) (user_context state)
      in case enrich_context_with_web_data w (domain state) base_context (user_context state) of
           Inl e \<Rightarrow> research_failed state e
         | Inr enriched_context \<Rightarrow>
             (case llm_research_domain w (domain state) enriched_context of
                Inl e \<Rightarrow> research_failed state e
              | Inr research_data \<Rightarrow>
                  (let research_result =
                         \<lparr>domain_info = dict_get (get_domain_info research_data) enriched_context,
                          key_concepts = dict_get (get_key_concepts research_data) [],
                          terminology = dict_get (get_terminology research_data) [],
                          context_enriched =
                            dict_get (get_context_enriched research_data) enriched_context\<rparr>
                   in state\<lparr>domain_research := Some (model_dump_json w research_result),
                            status := ''research_completed''\<rparr>)))"

section \<open>Generator agent\<close>

text \<open>
  \<^verbatim>\<open>generate_data_batch\<close>. The second argument and the second result are the batch
  sizes asked of the generation service so far, oldest first. The research text is
  handed to the service as it is stored: parsing it cannot fail the batch.
\<close>

definition generate_data_batch ::
    "world \<Rightarrow> int list \<Rightarrow> GenerationState \<Rightarrow> GenerationState \<times> int list" where
  "generate_data_batch w requests state =
     (let records_generated = int (length (generated_data state));
          records_remaining = num_records state - records_generated
      in if records_remaining \<le> 0 then (state\<lparr>status := ''generation_completed''\<rparr>, requests)
         else
           (let current_batch_size = min (BATCH_SIZE w) records_remaining;
                requests' = requests @ [current_batch_size]
            in case generate_synthetic_data w (length requests) (domain state) (data_format state)
                      current_batch_size (domain_research state) (user_context state) of
                 Inl e \<Rightarrow>
                   (state\<lparr>status := ''generation_failed'',
                          error_message := Some (''Generation failed: '' @ str_of e)\<rparr>, requests')
               | Inr batch_data \<Rightarrow>
                   if batch_data = []
                   then (state\<lparr>status := ''generation_failed'',
                               error_message := Some ''Failed to generate data batch''\<rparr>, requests')
                   else
                     (let state1 = state\<lparr>generated_data := generated_data state @ batch_data,
                                         current_batch := current_batch state + 1\<rparr>
                      in if int (length (generated_data state1)) \<ge> num_records state1
                         then (state1\<lparr>status := ''generation_completed''\<rparr>, requests')
                         else (state1\<lparr>status := ''generating''\<rparr>, requests'))))"

text \<open>
  \<^verbatim>\<open>math.ceil(total_records / batch_size)\<close>: the quotient of two integers, which
  raises on a zero divisor, rounded up. The quotient is taken exactly; Python's
  floating-point quotient has the same ceiling for operands below \<open>2 ^ 53\<close>, far
  above the 1000 records a request may ask for.
\<close>

definition calculate_batches :: "int \<Rightarrow> int \<Rightarrow> exn + int" where
  "calculate_batches total_records batch_size =
     (if batch_size = 0 then Inl (Exception ''division by zero'')
      else Inr \<lceil>(of_int total_records :: rat) / of_int batch_size\<rceil>)"

text \<open>\<^verbatim>\<open>GeneratorAgent.__call__\<close>; the batch count is computed outside any handler.\<close>

definition generator_call ::
    "world \<Rightarrow> int list \<Rightarrow> GenerationState \<Rightarrow> exn + GenerationState \<times> int list" where
  "generator_call w requests state =
     (if total_batches state = 0
      then (case calculate_batches (num_records state) (BATCH_SIZE w) of
              Inl e \<Rightarrow> Inl e
            | Inr n \<Rightarrow>
                Inr (generate_data_batch w requests (state\<lparr>total_batches := n, current_batch := 0\<rparr>)))
      else Inr (generate_data_batch w requests state))"

section \<open>Evaluator agent: model evaluation and saving\<close>

definition evaluate_with_llm :: "world \<Rightarrow> pyrecord list \<Rightarrow> string \<Rightarrow> EvaluationResult" where
  "evaluate_with_llm w data fmt =
     (case evaluate_data_quality w data fmt of
        Inr evaluation_result \<Rightarrow>
          \<lparr>valid_records = dict_get (get_valid_records evaluation_result) data,
           duplicate_count = dict_get (get_duplicate_count evaluation_result) 0,
           quality_issues = dict_get (get_quality_issues evaluation_result) [],
           passed_validation = dict_get (get_passed_validation evaluation_result) True\<rparr>
      | Inl e \<Rightarrow>
          (let unique_data = remove_exact_duplicates data;
               valid_data = basic_quality_check unique_data fmt
           in \<lparr>valid_records = valid_data,
               duplicate_count = int (length data) - int (length unique_data),
               quality_issues = [''Basic validation only - LLM evaluation failed''],
               passed_validation = (int (length valid_data) > 0)\<rparr>))"

text \<open>
  \<^verbatim>\<open>FileService.save_to_csv\<close> raises on an empty list and passes on whatever the
  writing raises; otherwise it returns the path of the file written.
\<close>

definition save_to_csv :: "world \<Rightarrow> pyrecord list \<Rightarrow> string \<Rightarrow> string \<Rightarrow> exn + string" where
  "save_to_csv w data dmn fmt =
     (if data = [] then Inl (Exception ''No data to save'') else write_csv w data dmn fmt)"

text \<open>
  \<^verbatim>\<open>evaluate_and_save\<close>. The check \<^verbatim>\<open>validate_data_format\<close> only logs a
  warning and never raises, so it has no part in the result.
\<close>

definition evaluate_and_save :: "world \<Rightarrow> GenerationState \<Rightarrow> GenerationState" where
  "evaluate_and_save w state =
     (let unique_data = remove_exact_duplicates (generated_data state);
          basic_valid_data = basic_quality_check unique_data (data_format state);
          evaluation_result = evaluate_with_llm w basic_valid_data (data_format state);
          final_data = valid_records evaluation_result
      in if final_data = []
         then state\<lparr>status := ''evaluation_failed'',
                    error_message := Some ''No valid records after evaluation''\<rparr>
         else
           (case save_to_csv w final_data (domain state) (data_format state) of
              Inl e \<Rightarrow>
                state\<lparr>status := ''evaluation_failed'',
                      error_message := Some (''Evaluation failed: '' @ str_of e)\<rparr>
            | Inr path \<Rightarrow>
                state\<lparr>generated_data := final_data, file_path := Some path,
                      status := ''completed''\<rparr>))"

section \<open>The workflow graph\<close>

definition research_node :: "world \<Rightarrow> GenerationState \<Rightarrow> GenerationState" where
  "research_node w state = research_domain w state"

definition generate_node ::
    "world \<Rightarrow> int list \<Rightarrow> GenerationState \<Rightarrow> exn + GenerationState \<times> int list" where
  "generate_node w requests state = generator_call w requests state"

definition evaluate_node :: "world \<Rightarrow> GenerationState \<Rightarrow> GenerationState" where
  "evaluate_node w state =
     (if int (length (generated_data state)) \<ge> num_records state
           \<or> status state = ''generation_completed''
      then evaluate_and_save w state
      else state\<lparr>status := ''generating''\<rparr>)"

definition should_continue_generation :: "GenerationState \<Rightarrow> string" where
  "should_continue_generation state =
     (if status state \<in> set [''research_failed'', ''generation_failed'', ''evaluation_failed'']
      then ''end''
      else if status state = ''completed'' then ''end''
      else if int (length (generated_data state)) < num_records state
                \<and> status state \<noteq> ''generation_completed''
      then ''continue''
      else if int (length (generated_data state)) \<ge> num_records state
                \<and> status state \<noteq> ''completed''
      then ''end''
      else ''end'')"

text \<open>
  The graph of \<^verbatim>\<open>_build_workflow\<close>: the entry point is the research node, an edge
  leads from research to generate and from generate to evaluate, and after evaluate
  the answer of \<^verbatim>\<open>should_continue_generation\<close> selects generate or the end. The
  library runs one node per step and raises when the step bound is used up before
  the end is reached. The run keeps the list of the nodes executed, each with the
  state it returned.
\<close>

datatype node = Research | Generate | Evaluate | END

type_synonym trace = "(node \<times> GenerationState) list"

definition conditional_edge :: "string \<Rightarrow> node" where
  "conditional_edge answer = (if answer = ''continue'' then Generate else END)"

fun run_graph ::
    "nat \<Rightarrow> world \<Rightarrow> node \<Rightarrow> int list \<Rightarrow> GenerationState \<Rightarrow> trace
       \<Rightarrow> (exn + GenerationState) \<times> int list \<times> trace" where
  "run_graph fuel w END requests state tr = (Inr state, requests, tr)"
| "run_graph 0 w nd requests state tr = (Inl (Exception (recursion_error w)), requests, tr)"
| "run_graph (Suc fuel) w Research requests state tr =
     (let s = research_node w state
      in run_graph fuel w Generate requests s (tr @ [(Research, s)]))"
| "run_graph (Suc fuel) w Generate requests state tr =
     (case generate_node w requests state of
        Inl e \<Rightarrow> (Inl e, requests, tr)
      | Inr (s, requests') \<Rightarrow> run_graph fuel w Evaluate requests' s (tr @ [(Generate, s)]))"
| "run_graph (Suc fuel) w Evaluate requests state tr =
     (let s = evaluate_node w state
      in run_graph fuel w (conditional_edge (should_continue_generation s)) requests s
           (tr @ [(Evaluate, s)]))"

definition initial_state :: "string \<Rightarrow> string \<Rightarrow> int \<Rightarrow> string option \<Rightarrow> GenerationState" where
  "initial_state dmn fmt n ctx =
     \<lparr>domain = dmn, data_format = fmt, num_records = n, user_context = ctx,
      domain_research = None, generated_data = [], current_batch = 0, total_batches = 0,
      file_path = None, status = ''pending'', error_message = None\<rparr>"

definition ainvoke ::
    "world \<Rightarrow> GenerationState \<Rightarrow> (exn + GenerationState) \<times> int list \<times> trace" where
  "ainvoke w state = run_graph (recursion_limit w) w Research [] state []"

definition run_workflow ::
    "world \<Rightarrow> string \<Rightarrow> string \<Rightarrow> int \<Rightarrow> string option \<Rightarrow> GenerationState" where
  "run_workflow w dmn fmt n ctx =
     (case fst (ainvoke w (initial_state dmn fmt n ctx)) of
        Inr final_state \<Rightarrow> final_state
      | Inl e \<Rightarrow>
          (initial_state dmn fmt n ctx)\<lparr>status := ''failed'', error_message := Some (str_of e)\<rparr>)"

section \<open>Notions used to state the properties\<close>

text \<open>
  The transition table of the orchestrator as the specification words it, one row
  per line, the first matching row deciding.
\<close>

datatype decision = TerminateFailed | TerminateSuccess | LoopBack | TerminateOther

definition transition_table :: "GenerationState \<Rightarrow> decision" where
  "transition_table state =
     (if status state = ''research_failed'' \<or> status state = ''generation_failed''
           \<or> status state = ''evaluation_failed''
      then TerminateFailed
      else if status state = ''completed'' then TerminateSuccess
      else if int (length (generated_data state)) < num_records state
                \<and> status state \<noteq> ''generation_completed''
      then LoopBack
      else TerminateOther)"

text \<open>
  The positions of a list of records whose canonical form does not occur at an
  earlier position.
\<close>

definition first_seen_positions :: "pyrecord list \<Rightarrow> nat list" where
  "first_seen_positions data =
     filter (\<lambda>i. record_str (data ! i) \<notin> set (map record_str (take i data))) [0..<length data]"



text \<open>
  A state in which the run has not finished: no file has been written and the
  status is not \<^verbatim>\<open>completed\<close>. In the part of a trace that a run adds, every
  state is unfinished but possibly the last one, which the evaluation node may have
  completed, writing the file.
\<close>

definition unfinished :: "GenerationState \<Rightarrow> bool" where
  "unfinished s = (file_path s = None \<and> status s \<noteq> ''completed'')"

definition good_tail :: "trace \<Rightarrow> bool" where
  "good_tail rest =
     (\<forall>i < length rest. unfinished (snd (rest ! i))
        \<or> (Suc i = length rest \<and> fst (rest ! i) = Evaluate
            \<and> status (snd (rest ! i)) = ''completed'' \<and> file_path (snd (rest ! i)) \<noteq> None))"

section \<open>Example collaborators\<close>

text \<open>
  A world in which every collaborator answers: the generation service returns as
  many records as it is asked for, the evaluation service accepts what it is given
  and the writer returns a path.
\<close>

definition sample_record :: pyrecord where
  "sample_record =
     [(''question'', PStr ''What is triage?''), (''answer'', PStr ''Sorting patients by urgency''),
      (''context'', PStr ''emergency care'')]"

definition example_world :: world where
  "example_world =
     \<lparr>BATCH_SIZE = 15, recursion_limit = 25, recursion_error = ''Recursion limit reached'',
      base_contexts = (\<lambda>d. None),
      enrich_context_with_web_data = (\<lambda>d base u. Inr base),
      llm_research_domain =
        (\<lambda>d c. Inr \<lparr>get_domain_info = Some c, get_key_concepts = Some [],
                      get_terminology = Some [], get_context_enriched = Some c\<rparr>),
      model_dump_json = (\<lambda>r. domain_info r),
      generate_synthetic_data = (\<lambda>i d f n r c. Inr (replicate (nat n) sample_record)),
      evaluate_data_quality =
        (\<lambda>data f. Inr \<lparr>get_valid_records = Some data, get_duplicate_count = Some 0,
                         get_quality_issues = Some [], get_passed_validation = Some True\<rparr>),
      write_csv = (\<lambda>data d f. Inr (''responses/'' @ d @ ''_'' @ f @ ''.csv''))\<rparr>"

text \<open>The same world with a web enrichment that raises.\<close>

definition research_fails_world :: world where
  "research_fails_world =
     example_world\<lparr>enrich_context_with_web_data :=
       (\<lambda>d base u. Inl (Exception ''connection refused''))\<rparr>"

text \<open>The same world with a generation service whose first answer is empty.\<close>

definition empty_batch_world :: world where
  "empty_batch_world =
     example_world\<lparr>generate_synthetic_data :=
       (\<lambda>i d f n r c. if i = 0 then Inr [] else Inr (replicate (nat n) sample_record))\<rparr>"

text \<open>The same world with an evaluation service that raises.\<close>

definition evaluation_fails_world :: world where
  "evaluation_fails_world =
     example_world\<lparr>evaluate_data_quality := (\<lambda>data f. Inl (Exception ''timeout''))\<rparr>"

text \<open>The same world with a writer that raises.\<close>

definition write_fails_world :: world where
  "write_fails_world =
     example_world\<lparr>write_csv := (\<lambda>data d f. Inl (Exception ''disk full''))\<rparr>"

section \<open>The continuation decision\<close>

lemma conditional_edge_table:
  "conditional_edge (should_continue_generation state) =
     (case transition_table state of LoopBack \<Rightarrow> Generate | _ \<Rightarrow> END)"
  by (simp add: should_continue_generation_def transition_table_def conditional_edge_def)

text \<open>
  C1: the continuation decision is the transition table of the specification. For
  every state \<^verbatim>\<open>should_continue_generation\<close> answers \<^verbatim>\<open>continue\<close> exactly on
  the row that loops back to batch generation (fewer records than asked for and a
  status other than \<^verbatim>\<open>generation_completed\<close>, no failure status and not
  \<^verbatim>\<open>completed\<close>) and \<^verbatim>\<open>end\<close> on the three other rows, and the graph takes
  this decision after every execution of the evaluation node, on the state that
  node returned.
\<close>

theorem should_continue_generation_table:
  "should_continue_generation state =
     (case transition_table state of LoopBack \<Rightarrow> ''continue'' | _ \<Rightarrow> ''end'')
   \<and> run_graph (Suc fuel) w Evaluate requests state tr =
       run_graph fuel w
         (case transition_table (evaluate_node w state) of LoopBack \<Rightarrow> Generate | _ \<Rightarrow> END)
         requests (evaluate_node w state) (tr @ [(Evaluate, evaluate_node w state)])"
proof
  show "should_continue_generation state =
     (case transition_table state of LoopBack \<Rightarrow> ''continue'' | _ \<Rightarrow> ''end'')"
    by (simp add: should_continue_generation_def transition_table_def)
  show "run_graph (Suc fuel) w Evaluate requests state tr =
       run_graph fuel w
         (case transition_table (evaluate_node w state) of LoopBack \<Rightarrow> Generate | _ \<Rightarrow> END)
         requests (evaluate_node w state) (tr @ [(Evaluate, evaluate_node w state)])"
    by (simp add: Let_def conditional_edge_table)
qed

theorem should_continue_generation_table_witness:
  "should_continue_generation ((initial_state ''law'' ''qna'' 2 None)\<lparr>status := ''generating''\<rparr>)
     = ''continue''
   \<and> should_continue_generation
       ((initial_state ''law'' ''qna'' 2 None)\<lparr>status := ''generation_failed''\<rparr>) = ''end''
   \<and> should_continue_generation
       ((initial_state ''law'' ''qna'' 2 None)\<lparr>status := ''generation_completed''\<rparr>) = ''end''"
  using should_continue_generation_table
      [of "(initial_state ''law'' ''qna'' 2 None)\<lparr>status := ''generating''\<rparr>"]
    should_continue_generation_table
      [of "(initial_state ''law'' ''qna'' 2 None)\<lparr>status := ''generation_failed''\<rparr>"]
    should_continue_generation_table
      [of "(initial_state ''law'' ''qna'' 2 None)\<lparr>status := ''generation_completed''\<rparr>"]
  by (simp add: transition_table_def initial_state_def)

section \<open>Exact duplicates\<close>

lemma dedup_loop_append:
  "dedup_loop (xs @ ys) seen acc =
     dedup_loop ys (seen \<union> record_str ` set xs) (dedup_loop xs seen acc)"
proof (induction xs arbitrary: seen acc)
  case Nil
  then show ?case by simp
next
  case (Cons r rest)
  have "insert (record_str r) (seen \<union> record_str ` set rest) = seen \<union> record_str ` set rest"
    if "record_str r \<in> seen"
    using that by auto
  then show ?case using Cons.IH by (simp add: Un_commute insert_absorb)
qed

lemma remove_exact_duplicates_snoc:
  "remove_exact_duplicates (xs @ [r]) =
     (if record_str r \<in> record_str ` set xs then remove_exact_duplicates xs
      else remove_exact_duplicates xs @ [r])"
  by (simp add: remove_exact_duplicates_def dedup_loop_append)

lemma first_seen_positions_snoc:
  "first_seen_positions (xs @ [r]) =
     first_seen_positions xs @ (if record_str r \<in> record_str ` set xs then [] else [length xs])"
proof -
  let ?P = "\<lambda>i. record_str ((xs @ [r]) ! i) \<notin> set (map record_str (take i (xs @ [r])))"
  have a: "filter ?P [0..<length xs] = first_seen_positions xs"
    unfolding first_seen_positions_def
    by (rule filter_cong) (auto simp: nth_append)
  have b: "filter ?P [length xs] = (if record_str r \<in> record_str ` set xs then [] else [length xs])"
    by simp
  have "first_seen_positions (xs @ [r]) = filter ?P ([0..<length xs] @ [length xs])"
    by (simp add: first_seen_positions_def)
  also have "\<dots> = filter ?P [0..<length xs] @ filter ?P [length xs]"
    by (rule filter_append)
  finally show ?thesis
    by (simp only: a b)
qed

lemma first_seen_positions_bound: "i \<in> set (first_seen_positions data) \<Longrightarrow> i < length data"
  by (simp add: first_seen_positions_def)

lemma remove_exact_duplicates_positions:
  "remove_exact_duplicates data = map ((!) data) (first_seen_positions data)"
proof (induction data rule: rev_induct)
  case Nil
  then show ?case by (simp add: remove_exact_duplicates_def first_seen_positions_def)
next
  case (snoc r xs)
  then show ?case
    by (auto simp: remove_exact_duplicates_snoc first_seen_positions_snoc nth_append
        dest: first_seen_positions_bound)
qed

lemma remove_exact_duplicates_subseq: "subseq (remove_exact_duplicates data) data"
proof (induction data rule: rev_induct)
  case Nil
  then show ?case by (simp add: remove_exact_duplicates_def)
next
  case (snoc r xs)
  then show ?case
    by (auto simp: remove_exact_duplicates_snoc subseq_append')
qed








section \<open>Basic quality check\<close>






section \<open>Model evaluation: the fallback\<close>

lemma duplicate_positions_count:
  "length data - length (first_seen_positions data) =
     length (filter (\<lambda>i. record_str (data ! i) \<in> set (map record_str (take i data)))
        [0..<length data])"
proof -
  let ?P = "\<lambda>i. record_str (data ! i) \<notin> set (map record_str (take i data))"
  have "length (filter ?P [0..<length data]) + length (filter (\<lambda>i. \<not> ?P i) [0..<length data])
          = length [0..<length data]"
    by (rule sum_length_filter_compl)
  then show ?thesis by (simp add: first_seen_positions_def)
qed

text \<open>
  C3: when the call of the evaluation service raises, \<^verbatim>\<open>evaluate_with_llm\<close>
  returns, for every list of records it was given, the report of the basic
  validation of that list: the valid records are the records left by exact
  duplicate removal followed by the basic quality check, the quality issues are
  the single text \<^verbatim>\<open>Basic validation only - LLM evaluation failed\<close>, the
  duplicate count is the number of records that exact duplicate removal dropped
  (the records whose canonical form occurs earlier in the list), and the
  validation passed exactly when at least one record is left.
\<close>

theorem evaluate_with_llm_fallback:
  assumes "evaluate_data_quality w data fmt = Inl e"
  shows "evaluate_with_llm w data fmt =
           \<lparr>valid_records = basic_quality_check (remove_exact_duplicates data) fmt,
            duplicate_count = int (length data) - int (length (remove_exact_duplicates data)),
            quality_issues = [''Basic validation only - LLM evaluation failed''],
            passed_validation = (0 < length (basic_quality_check (remove_exact_duplicates data) fmt))\<rparr>
         \<and> duplicate_count (evaluate_with_llm w data fmt) =
             int (length (filter (\<lambda>i. record_str (data ! i) \<in> set (map record_str (take i data)))
                    [0..<length data]))
         \<and> (passed_validation (evaluate_with_llm w data fmt)
              \<longleftrightarrow> 0 < length (valid_records (evaluate_with_llm w data fmt)))"
proof -
  have r: "evaluate_with_llm w data fmt =
           \<lparr>valid_records = basic_quality_check (remove_exact_duplicates data) fmt,
            duplicate_count = int (length data) - int (length (remove_exact_duplicates data)),
            quality_issues = [''Basic validation only - LLM evaluation failed''],
            passed_validation = (0 < length (basic_quality_check (remove_exact_duplicates data) fmt))\<rparr>"
    using assms by (simp add: evaluate_with_llm_def Let_def)
  have le: "length (remove_exact_duplicates data) \<le> length data"
    using remove_exact_duplicates_subseq[of data] by (rule list_emb_length)
  have "int (length data) - int (length (remove_exact_duplicates data))
          = int (length data - length (first_seen_positions data))"
    using le by (simp add: remove_exact_duplicates_positions)
  then have d: "int (length data) - int (length (remove_exact_duplicates data))
          = int (length (filter (\<lambda>i. record_str (data ! i) \<in> set (map record_str (take i data)))
                    [0..<length data]))"
    by (simp only: duplicate_positions_count)
  show ?thesis
    using d by (simp add: r)
qed

theorem evaluate_with_llm_fallback_witness:
  "evaluate_with_llm evaluation_fails_world
     [sample_record, [(''question'', PStr ''Hi'')], sample_record] ''qna''
   = \<lparr>valid_records = [sample_record], duplicate_count = 1,
      quality_issues = [''Basic validation only - LLM evaluation failed''],
      passed_validation = True\<rparr>"
proof -
  have a: "evaluate_data_quality evaluation_fails_world
             [sample_record, [(''question'', PStr ''Hi'')], sample_record] ''qna''
           = Inl (Exception ''timeout'')"
    by (simp add: evaluation_fails_world_def)
  have b: "basic_quality_check
             (remove_exact_duplicates [sample_record, [(''question'', PStr ''Hi'')], sample_record])
             ''qna'' = [sample_record]"
    by code_simp
  have c: "int (length [sample_record, [(''question'', PStr ''Hi'')], sample_record])
             - int (length (remove_exact_duplicates
                 [sample_record, [(''question'', PStr ''Hi'')], sample_record])) = 1"
    by code_simp
  show ?thesis
    using evaluate_with_llm_fallback[OF a] by (simp only: b c) simp
qed

section \<open>Batch generation keeps what was generated\<close>

lemma generate_data_batch_prefix:
  "prefix (generated_data state) (generated_data (fst (generate_data_batch w requests state)))"
  by (simp add: generate_data_batch_def Let_def split: sum.splits)

text \<open>
  C6: a call of the batch generation stage never removes or replaces a record
  generated before: for every state the generated data on entry is a prefix of the
  generated data on return, of \<^verbatim>\<open>generate_data_batch\<close> and of the agent's entry
  point alike, so its length does not decrease. When no record remains to be
  generated on entry, \<^verbatim>\<open>generate_data_batch\<close> sets the status
  \<^verbatim>\<open>generation_completed\<close>, asks the service for nothing and changes nothing
  else: the generated data and both batch counters are as they were.
\<close>

theorem generate_data_batch_keeps_records:
  "prefix (generated_data state) (generated_data (fst (generate_data_batch w requests state)))
   \<and> length (generated_data state)
       \<le> length (generated_data (fst (generate_data_batch w requests state)))
   \<and> (generator_call w requests state = Inr (state', requests')
        \<longrightarrow> prefix (generated_data state) (generated_data state'))
   \<and> (num_records state - int (length (generated_data state)) \<le> 0
        \<longrightarrow> generate_data_batch w requests state
              = (state\<lparr>status := ''generation_completed''\<rparr>, requests)
            \<and> status (fst (generate_data_batch w requests state)) = ''generation_completed''
            \<and> generated_data (fst (generate_data_batch w requests state)) = generated_data state
            \<and> current_batch (fst (generate_data_batch w requests state)) = current_batch state
            \<and> total_batches (fst (generate_data_batch w requests state)) = total_batches state)"
proof (intro conjI impI)
  show p: "prefix (generated_data state) (generated_data (fst (generate_data_batch w requests state)))"
    by (rule generate_data_batch_prefix)
  then show "length (generated_data state)
       \<le> length (generated_data (fst (generate_data_batch w requests state)))"
    by (rule prefix_length_le)
  show "prefix (generated_data state) (generated_data state')"
    if "generator_call w requests state = Inr (state', requests')"
  proof (cases "total_batches state = 0")
    case True
    show ?thesis
    proof (cases "calculate_batches (num_records state) (BATCH_SIZE w)")
      case (Inl e)
      with True that show ?thesis by (simp add: generator_call_def)
    next
      case (Inr n)
      with True that have
        "state' = fst (generate_data_batch w requests (state\<lparr>total_batches := n, current_batch := 0\<rparr>))"
        by (simp add: generator_call_def)
      then show ?thesis
        using generate_data_batch_prefix[of "state\<lparr>total_batches := n, current_batch := 0\<rparr>" w requests]
        by simp
    qed
  next
    case False
    with that have "state' = fst (generate_data_batch w requests state)"
      by (simp add: generator_call_def)
    then show ?thesis by (simp add: generate_data_batch_prefix)
  qed
next
  assume a: "num_records state - int (length (generated_data state)) \<le> 0"
  then show e: "generate_data_batch w requests state
              = (state\<lparr>status := ''generation_completed''\<rparr>, requests)"
    by (simp add: generate_data_batch_def Let_def)
  show "status (fst (generate_data_batch w requests state)) = ''generation_completed''"
    by (simp add: e)
  show "generated_data (fst (generate_data_batch w requests state)) = generated_data state"
    by (simp add: e)
  show "current_batch (fst (generate_data_batch w requests state)) = current_batch state"
    by (simp add: e)
  show "total_batches (fst (generate_data_batch w requests state)) = total_batches state"
    by (simp add: e)
qed

theorem generate_data_batch_keeps_records_witness:
  "generate_data_batch example_world []
     ((initial_state ''law'' ''qna'' 1 None)\<lparr>generated_data := [sample_record], total_batches := 1,
        current_batch := 1, status := ''generating''\<rparr>)
   = ((initial_state ''law'' ''qna'' 1 None)\<lparr>generated_data := [sample_record], total_batches := 1,
        current_batch := 1, status := ''generation_completed''\<rparr>, [])
   \<and> prefix [sample_record]
       (generated_data (fst (generate_data_batch example_world []
          ((initial_state ''law'' ''qna'' 3 None)\<lparr>generated_data := [sample_record]\<rparr>))))"
  using generate_data_batch_keeps_records
      [of "(initial_state ''law'' ''qna'' 1 None)\<lparr>generated_data := [sample_record],
             total_batches := 1, current_batch := 1, status := ''generating''\<rparr>"
          example_world "[]"]
    generate_data_batch_keeps_records
      [of "(initial_state ''law'' ''qna'' 3 None)\<lparr>generated_data := [sample_record]\<rparr>"
          example_world "[]"]
  by (simp add: initial_state_def)

section \<open>Evaluation fails without side effects\<close>

text \<open>
  C10: the full evaluation pass ends with the status \<^verbatim>\<open>evaluation_failed\<close> or
  \<^verbatim>\<open>completed\<close>. When it ends with \<^verbatim>\<open>evaluation_failed\<close>, because no
  valid record is left (with the message \<^verbatim>\<open>No valid records after evaluation\<close>)
  or because saving raised (with the text of the exception in the message), the
  generated data and the file path are what they were on entry. The generated data
  is replaced by the valid records only together with the file path being set and
  the status becoming \<^verbatim>\<open>completed\<close>.
\<close>

theorem evaluate_and_save_atomic:
  "(status (evaluate_and_save w state) = ''evaluation_failed''
      \<or> status (evaluate_and_save w state) = ''completed'')
   \<and> (status (evaluate_and_save w state) = ''evaluation_failed''
        \<longrightarrow> generated_data (evaluate_and_save w state) = generated_data state
            \<and> file_path (evaluate_and_save w state) = file_path state)
   \<and> (status (evaluate_and_save w state) = ''completed''
        \<longrightarrow> (\<exists>path. save_to_csv w (generated_data (evaluate_and_save w state)) (domain state)
                       (data_format state) = Inr path
                    \<and> file_path (evaluate_and_save w state) = Some path)
            \<and> generated_data (evaluate_and_save w state)
                = valid_records (evaluate_with_llm w
                    (basic_quality_check (remove_exact_duplicates (generated_data state))
                       (data_format state)) (data_format state))
            \<and> generated_data (evaluate_and_save w state) \<noteq> [])
   \<and> (valid_records (evaluate_with_llm w
          (basic_quality_check (remove_exact_duplicates (generated_data state))
             (data_format state)) (data_format state)) = []
        \<longrightarrow> evaluate_and_save w state
              = state\<lparr>status := ''evaluation_failed'',
                      error_message := Some ''No valid records after evaluation''\<rparr>)
   \<and> (valid_records (evaluate_with_llm w
          (basic_quality_check (remove_exact_duplicates (generated_data state))
             (data_format state)) (data_format state)) \<noteq> []
        \<and> save_to_csv w (valid_records (evaluate_with_llm w
              (basic_quality_check (remove_exact_duplicates (generated_data state))
                 (data_format state)) (data_format state))) (domain state) (data_format state)
            = Inl e
        \<longrightarrow> evaluate_and_save w state
              = state\<lparr>status := ''evaluation_failed'',
                      error_message := Some (''Evaluation failed: '' @ str_of e)\<rparr>)"
  by (auto simp: evaluate_and_save_def Let_def split: sum.splits)

theorem evaluate_and_save_atomic_witness:
  "evaluate_and_save write_fails_world
     ((initial_state ''law'' ''qna'' 1 None)\<lparr>generated_data := [sample_record]\<rparr>)
   = (initial_state ''law'' ''qna'' 1 None)\<lparr>generated_data := [sample_record],
        status := ''evaluation_failed'', error_message := Some ''Evaluation failed: disk full''\<rparr>
   \<and> evaluate_and_save example_world
     ((initial_state ''law'' ''qna'' 1 None)\<lparr>generated_data := [[(''question'', PStr ''Hi'')]]\<rparr>)
   = (initial_state ''law'' ''qna'' 1 None)\<lparr>generated_data := [[(''question'', PStr ''Hi'')]],
        status := ''evaluation_failed'',
        error_message := Some ''No valid records after evaluation''\<rparr>"
proof -
  have a: "valid_records (evaluate_with_llm write_fails_world
             (basic_quality_check (remove_exact_duplicates [sample_record]) ''qna'') ''qna'')
           = [sample_record]"
    by code_simp
  have b: "save_to_csv write_fails_world [sample_record] ''law'' ''qna''
           = Inl (Exception ''disk full'')"
    by code_simp
  have c: "valid_records (evaluate_with_llm example_world
             (basic_quality_check (remove_exact_duplicates [[(''question'', PStr ''Hi'')]]) ''qna'')
             ''qna'') = []"
    by code_simp
  show ?thesis
    using evaluate_and_save_atomic
        [of write_fails_world
          "(initial_state ''law'' ''qna'' 1 None)\<lparr>generated_data := [sample_record]\<rparr>"
          "Exception ''disk full''"]
      evaluate_and_save_atomic
        [of example_world
          "(initial_state ''law'' ''qna'' 1 None)\<lparr>generated_data := [[(''question'', PStr ''Hi'')]]\<rparr>"]
      a b c
    by (simp add: initial_state_def)
qed

section \<open>The file path and the status\<close>

lemma research_node_unfinished: "unfinished s \<Longrightarrow> unfinished (research_node w s)"
  by (auto simp: unfinished_def research_node_def research_domain_def research_failed_def Let_def
      split: sum.splits)

lemma generate_data_batch_unfinished:
  "unfinished s \<Longrightarrow> unfinished (fst (generate_data_batch w rq s))"
  by (auto simp: unfinished_def generate_data_batch_def Let_def split: sum.splits)

lemma generate_node_unfinished:
  "unfinished s \<Longrightarrow> generate_node w rq s = Inr (s', rq') \<Longrightarrow> unfinished s'"
proof -
  assume u: "unfinished s" and g: "generate_node w rq s = Inr (s', rq')"
  show "unfinished s'"
  proof (cases "total_batches s = 0")
    case True
    show ?thesis
    proof (cases "calculate_batches (num_records s) (BATCH_SIZE w)")
      case (Inl e)
      with True g show ?thesis by (simp add: generate_node_def generator_call_def)
    next
      case (Inr n)
      with True g have "s' = fst (generate_data_batch w rq (s\<lparr>total_batches := n, current_batch := 0\<rparr>))"
        by (simp add: generate_node_def generator_call_def)
      moreover have "unfinished (s\<lparr>total_batches := n, current_batch := 0\<rparr>)"
        using u by (simp add: unfinished_def)
      ultimately show ?thesis by (simp add: generate_data_batch_unfinished)
    qed
  next
    case False
    with g have "s' = fst (generate_data_batch w rq s)"
      by (simp add: generate_node_def generator_call_def)
    with u show ?thesis by (simp add: generate_data_batch_unfinished)
  qed
qed

lemma evaluate_and_save_cases:
  "unfinished s \<Longrightarrow>
     unfinished (evaluate_and_save w s)
     \<or> (status (evaluate_and_save w s) = ''completed'' \<and> file_path (evaluate_and_save w s) \<noteq> None)"
  by (auto simp: unfinished_def evaluate_and_save_def Let_def split: sum.splits)

lemma evaluate_node_cases:
  "unfinished s \<Longrightarrow>
     unfinished (evaluate_node w s)
     \<or> (status (evaluate_node w s) = ''completed'' \<and> file_path (evaluate_node w s) \<noteq> None)"
  using evaluate_and_save_cases[of s w]
  by (auto simp: evaluate_node_def unfinished_def)

lemma continue_not_completed:
  "conditional_edge (should_continue_generation s) \<noteq> END \<Longrightarrow> status s \<noteq> ''completed''"
  by (auto simp: conditional_edge_def should_continue_generation_def split: if_splits)

lemma conditional_edge_cases:
  "conditional_edge a = Generate \<or> conditional_edge a = END"
  by (simp add: conditional_edge_def)

lemma good_tail_Nil: "good_tail []"
  by (simp add: good_tail_def)

lemma good_tail_Cons:
  "unfinished (snd x) \<Longrightarrow> good_tail rest \<Longrightarrow> good_tail (x # rest)"
  unfolding good_tail_def
  by (auto simp: nth_Cons split: nat.splits)

lemma good_tail_single_completed:
  "status s = ''completed'' \<Longrightarrow> file_path s \<noteq> None \<Longrightarrow> good_tail [(Evaluate, s)]"
  by (simp add: good_tail_def)

lemma run_graph_trace:
  "unfinished state \<Longrightarrow> nd \<noteq> END \<Longrightarrow>
     \<exists>rest. snd (snd (run_graph fuel w nd rq state tr)) = tr @ rest \<and> good_tail rest
       \<and> (\<forall>s. fst (run_graph fuel w nd rq state tr) = Inr s \<longrightarrow> rest \<noteq> [] \<and> s = snd (last rest))"
proof (induction fuel arbitrary: nd rq state tr)
  case 0
  then show ?case by (cases nd) (simp_all add: good_tail_Nil)
next
  case (Suc fuel)
  show ?case
  proof (cases nd)
    case END
    with Suc.prems show ?thesis by simp
  next
    case Research
    let ?s = "research_node w state"
    have u: "unfinished ?s" using Suc.prems(1) by (rule research_node_unfinished)
    from Suc.IH[OF u, of Generate rq "tr @ [(Research, ?s)]"] obtain rest where
      r: "snd (snd (run_graph fuel w Generate rq ?s (tr @ [(Research, ?s)])))
            = (tr @ [(Research, ?s)]) @ rest" "good_tail rest"
         "\<forall>s. fst (run_graph fuel w Generate rq ?s (tr @ [(Research, ?s)])) = Inr s
            \<longrightarrow> rest \<noteq> [] \<and> s = snd (last rest)"
      by auto
    show ?thesis
      apply (rule exI[of _ "(Research, ?s) # rest"])
      using r u Research by (simp add: Let_def good_tail_Cons)
  next
    case Generate
    show ?thesis
    proof (cases "generate_node w rq state")
      case (Inl e)
      with Generate show ?thesis by (simp add: good_tail_Nil)
    next
      case (Inr p)
      obtain s rq' where p: "p = (s, rq')" by (cases p)
      have u: "unfinished s" using Suc.prems(1) Inr p by (auto intro: generate_node_unfinished)
      from Suc.IH[OF u, of Evaluate rq' "tr @ [(Generate, s)]"] obtain rest where
        r: "snd (snd (run_graph fuel w Evaluate rq' s (tr @ [(Generate, s)])))
              = (tr @ [(Generate, s)]) @ rest" "good_tail rest"
           "\<forall>s'. fst (run_graph fuel w Evaluate rq' s (tr @ [(Generate, s)])) = Inr s'
              \<longrightarrow> rest \<noteq> [] \<and> s' = snd (last rest)"
        by auto
      show ?thesis
        apply (rule exI[of _ "(Generate, s) # rest"])
        using r u Inr p Generate by (simp add: good_tail_Cons)
    qed
  next
    case Evaluate
    let ?s = "evaluate_node w state"
    let ?n = "conditional_edge (should_continue_generation ?s)"
    show ?thesis
    proof (cases "?n = END")
      case True
      from evaluate_node_cases[OF Suc.prems(1), of w]
      have "good_tail [(Evaluate, ?s)]"
        by (auto intro: good_tail_single_completed good_tail_Cons good_tail_Nil)
      with True Evaluate show ?thesis by (simp add: Let_def)
    next
      case False
      then have nc: "status ?s \<noteq> ''completed''" by (rule continue_not_completed)
      with evaluate_node_cases[OF Suc.prems(1), of w] have u: "unfinished ?s" by auto
      from Suc.IH[OF u False, of rq "tr @ [(Evaluate, ?s)]"] obtain rest where
        r: "snd (snd (run_graph fuel w ?n rq ?s (tr @ [(Evaluate, ?s)])))
              = (tr @ [(Evaluate, ?s)]) @ rest" "good_tail rest"
           "\<forall>s'. fst (run_graph fuel w ?n rq ?s (tr @ [(Evaluate, ?s)])) = Inr s'
              \<longrightarrow> rest \<noteq> [] \<and> s' = snd (last rest)"
        by auto
      show ?thesis
        apply (rule exI[of _ "(Evaluate, ?s) # rest"])
        using r u Evaluate by (simp add: Let_def good_tail_Cons)
    qed
  qed
qed

lemma ainvoke_trace:
  "\<exists>rest. snd (snd (ainvoke w (initial_state d f n c))) = rest \<and> good_tail rest
     \<and> (\<forall>s. fst (ainvoke w (initial_state d f n c)) = Inr s \<longrightarrow> rest \<noteq> [] \<and> s = snd (last rest))"
proof -
  have u: "unfinished (initial_state d f n c)"
    by (simp add: unfinished_def initial_state_def)
  from run_graph_trace[OF u, of Research "recursion_limit w" w "[]" "[]"]
  show ?thesis by (simp add: ainvoke_def)
qed

lemma good_tail_nth:
  assumes "good_tail rest" "i < length rest"
  shows "(file_path (snd (rest ! i)) \<noteq> None) = (status (snd (rest ! i)) = ''completed'')"
    and "file_path (snd (rest ! i)) \<noteq> None \<longrightarrow> Suc i = length rest \<and> fst (rest ! i) = Evaluate"
  using assms unfolding good_tail_def unfinished_def by auto

text \<open>
  C9: in every state of a run, the file path is set if and only if the status is
  \<^verbatim>\<open>completed\<close>. This holds for the initial state, for the state returned by
  each node that the graph executes, whatever the collaborators answer and
  whatever the step bound is, and for the state that \<^verbatim>\<open>run_workflow\<close> returns,
  also when it returns through its outer handler. The file path is set once only:
  a state of the trace with a file path is the last one and was returned by the
  evaluation node. A run that ends with one of the failure statuses ends without a
  file path.
\<close>

theorem file_path_iff_completed:
  "file_path (initial_state d f n c) = None
   \<and> status (initial_state d f n c) = ''pending''
   \<and> (\<forall>i < length (snd (snd (ainvoke w (initial_state d f n c)))).
        ((file_path (snd (snd (snd (ainvoke w (initial_state d f n c))) ! i)) \<noteq> None)
           = (status (snd (snd (snd (ainvoke w (initial_state d f n c))) ! i)) = ''completed''))
        \<and> (file_path (snd (snd (snd (ainvoke w (initial_state d f n c))) ! i)) \<noteq> None
             \<longrightarrow> Suc i = length (snd (snd (ainvoke w (initial_state d f n c))))
                 \<and> fst (snd (snd (ainvoke w (initial_state d f n c))) ! i) = Evaluate))
   \<and> ((file_path (run_workflow w d f n c) \<noteq> None) = (status (run_workflow w d f n c) = ''completed''))
   \<and> (status (run_workflow w d f n c)
         \<in> {''research_failed'', ''generation_failed'', ''evaluation_failed'', ''failed''}
        \<longrightarrow> file_path (run_workflow w d f n c) = None)"
proof -
  let ?tr = "snd (snd (ainvoke w (initial_state d f n c)))"
  from ainvoke_trace[of w d f n c] have g: "good_tail ?tr"
    and l: "\<And>s. fst (ainvoke w (initial_state d f n c)) = Inr s \<Longrightarrow> ?tr \<noteq> [] \<and> s = snd (last ?tr)"
    by auto
  have a: "file_path (initial_state d f n c) = None \<and> status (initial_state d f n c) = ''pending''"
    by (simp add: initial_state_def)
  have b: "\<forall>i < length ?tr.
        ((file_path (snd (?tr ! i)) \<noteq> None) = (status (snd (?tr ! i)) = ''completed''))
        \<and> (file_path (snd (?tr ! i)) \<noteq> None \<longrightarrow> Suc i = length ?tr \<and> fst (?tr ! i) = Evaluate)"
    using good_tail_nth[OF g] by blast
  have r: "(file_path (run_workflow w d f n c) \<noteq> None) = (status (run_workflow w d f n c) = ''completed'')"
  proof (cases "fst (ainvoke w (initial_state d f n c))")
    case (Inl e)
    then show ?thesis by (simp add: run_workflow_def initial_state_def)
  next
    case (Inr s)
    from l[OF Inr] have ne: "?tr \<noteq> []" and s: "s = snd (last ?tr)" by simp_all
    from ne have "last ?tr = ?tr ! (length ?tr - 1)" by (rule last_conv_nth)
    moreover from ne have "length ?tr - 1 < length ?tr" by simp
    ultimately have "(file_path s \<noteq> None) = (status s = ''completed'')"
      using b s by metis
    with Inr show ?thesis by (simp add: run_workflow_def)
  qed
  have q: "status (run_workflow w d f n c)
         \<in> {''research_failed'', ''generation_failed'', ''evaluation_failed'', ''failed''}
        \<longrightarrow> file_path (run_workflow w d f n c) = None"
    using r by auto
  from a b r q show ?thesis by blast
qed

theorem file_path_iff_completed_witness:
  "status (run_workflow example_world ''healthcare'' ''qna'' 10 None) = ''completed''
   \<and> file_path (run_workflow example_world ''healthcare'' ''qna'' 10 None)
       = Some ''responses/healthcare_qna.csv''
   \<and> status (run_workflow write_fails_world ''healthcare'' ''qna'' 10 None) = ''evaluation_failed''
   \<and> file_path (run_workflow write_fails_world ''healthcare'' ''qna'' 10 None) = None"
proof -
  have a: "file_path (run_workflow example_world ''healthcare'' ''qna'' 10 None)
             = Some ''responses/healthcare_qna.csv''"
    by code_simp
  have b: "status (run_workflow write_fails_world ''healthcare'' ''qna'' 10 None)
             = ''evaluation_failed''"
    by code_simp
  show ?thesis
    using file_path_iff_completed[of "''healthcare''" "''qna''" 10 None example_world]
      file_path_iff_completed[of "''healthcare''" "''qna''" 10 None write_fails_world] a b
    by simp
qed

end
